theory Spec2Isabelle
  imports Main "HOL-Library.AList" "HOL-Library.Char_ord" "HOL-Library.List_Lexorder"
    "HOL-Library.Product_Lexorder"
begin

section \<open>Python values, strings and responses\<close>

text \<open>
  The three servers (\<^verbatim>\<open>servers/code_server.py\<close>, \<^verbatim>\<open>servers/database_server.py\<close>,
  \<^verbatim>\<open>servers/document_server.py\<close>) each define \<^verbatim>\<open>list_tools\<close>, \<^verbatim>\<open>read_resource\<close> and
  \<^verbatim>\<open>call_tool\<close>. An argument map is a Python dict from parameter names to JSON values;
  the values modelled are null, strings and integers (the types the declared input
  schemas mention). Strings are lists of 8-bit characters, so the case mapping and the
  white space of Python's \<^verbatim>\<open>str\<close> are modelled on ASCII.
  An exception that leaves the function is the left summand of the result (a
  \<^verbatim>\<open>ValueError\<close> raised by the function itself, or any other exception that no
  \<^verbatim>\<open>except\<close> clause catches), a returned list of \<^verbatim>\<open>TextContent\<close> blocks the right
  one.
\<close>

datatype pyval = PNone | PStr string | PInt int

datatype content = TextContent string

datatype error = ValueError string | OtherException string

type_synonym arguments = "string \<rightharpoonup> pyval"

type_synonym response = "error + content list"

text \<open>\<^verbatim>\<open>arguments.get(k)\<close>: an absent key reads as \<^verbatim>\<open>None\<close>.\<close>

definition arg_get :: "arguments \<Rightarrow> string \<Rightarrow> pyval" where
  "arg_get a k = (case a k of None \<Rightarrow> PNone | Some v \<Rightarrow> v)"

text \<open>Python truthiness, as tested by \<^verbatim>\<open>not x\<close>.\<close>

fun truthy :: "pyval \<Rightarrow> bool" where
  "truthy PNone = False"
| "truthy (PStr s) = (s \<noteq> [])"
| "truthy (PInt i) = (i \<noteq> 0)"

definition nl :: string where
  "nl = [CHR 0x0A]"

definition digit_char :: "nat \<Rightarrow> char" where
  "digit_char d = ''0123456789'' ! d"

function str_of_nat :: "nat \<Rightarrow> string" where
  "str_of_nat n = (if n < 10 then [digit_char n] else str_of_nat (n div 10) @ [digit_char (n mod 10)])"
  by pat_completeness auto
termination
  by (relation "measure (\<lambda>n. n)") auto

definition str_of_int :: "int \<Rightarrow> string" where
  "str_of_int i = (if i < 0 then ''-'' @ str_of_nat (nat (- i)) else str_of_nat (nat i))"

text \<open>\<^verbatim>\<open>str(v)\<close>, as an f-string renders a value.\<close>

fun py_str :: "pyval \<Rightarrow> string" where
  "py_str PNone = ''None''"
| "py_str (PStr s) = s"
| "py_str (PInt i) = str_of_int i"

text \<open>\<^verbatim>\<open>s.startswith(p)\<close>.\<close>

definition startswith :: "string \<Rightarrow> string \<Rightarrow> bool" where
  "startswith s p = (take (length p) s = p)"

text \<open>\<^verbatim>\<open>sep.join(xs)\<close>.\<close>

fun join :: "string \<Rightarrow> string list \<Rightarrow> string" where
  "join sep [] = []"
| "join sep [x] = x"
| "join sep (x # y # ys) = x @ sep @ join sep (y # ys)"

definition is_upper :: "char \<Rightarrow> bool" where
  "is_upper c = (CHR ''A'' \<le> c \<and> c \<le> CHR ''Z'')"

definition is_lower :: "char \<Rightarrow> bool" where
  "is_lower c = (CHR ''a'' \<le> c \<and> c \<le> CHR ''z'')"

definition lower_char :: "char \<Rightarrow> char" where
  "lower_char c = (if is_upper c then char_of (of_char c + (32::nat)) else c)"

definition upper_char :: "char \<Rightarrow> char" where
  "upper_char c = (if is_lower c then char_of (of_char c - (32::nat)) else c)"

text \<open>\<^verbatim>\<open>s.lower()\<close> and \<^verbatim>\<open>s.upper()\<close>.\<close>

definition lower :: "string \<Rightarrow> string" where
  "lower s = map lower_char s"

definition upper :: "string \<Rightarrow> string" where
  "upper s = map upper_char s"

text \<open>The characters \<^verbatim>\<open>str.isspace\<close> accepts: tab to carriage return, the four
  separators 0x1C to 0x1F, and the space.\<close>

definition is_space :: "char \<Rightarrow> bool" where
  "is_space c = ((CHR 0x09 \<le> c \<and> c \<le> CHR 0x0D) \<or> (CHR 0x1C \<le> c \<and> c \<le> CHR 0x20))"

text \<open>\<^verbatim>\<open>s.strip()\<close>.\<close>

definition strip :: "string \<Rightarrow> string" where
  "strip s = rev (dropWhile is_space (rev (dropWhile is_space s)))"

text \<open>\<^verbatim>\<open>sub in s\<close> on strings.\<close>

fun str_contains :: "string \<Rightarrow> string \<Rightarrow> bool" where
  "str_contains [] sub = (sub = [])"
| "str_contains (c # cs) sub = (startswith (c # cs) sub \<or> str_contains cs sub)"

text \<open>\<^verbatim>\<open>s.count(sub)\<close> for a non-empty \<^verbatim>\<open>sub\<close>: the occurrences are counted from the
  left and do not overlap. The second argument is the number of characters still covered
  by the occurrence just counted.\<close>

fun count_from :: "string \<Rightarrow> nat \<Rightarrow> string \<Rightarrow> nat" where
  "count_from sub k [] = 0"
| "count_from sub (Suc k) (c # cs) = count_from sub k cs"
| "count_from sub 0 (c # cs) =
     (if startswith (c # cs) sub then Suc (count_from sub (length sub - 1) cs)
      else count_from sub 0 cs)"

definition str_count :: "string \<Rightarrow> string \<Rightarrow> nat" where
  "str_count s sub = (if sub = [] then Suc (length s) else count_from sub 0 s)"


section \<open>The file system and the interpreter behind the handlers\<close>

text \<open>
  The handlers reach the file system through \<^verbatim>\<open>pathlib.Path\<close>. A file system is a
  list of paths with what is stored there, in listing order; a path is the string the
  handler builds (redundant separators are not normalised). What the operating system
  decides on its own is an oracle of the environment: \<open>read_error\<close> and \<open>write_error\<close>
  give the text of the \<^verbatim>\<open>OSError\<close> raised when a path cannot be opened for reading or
  for writing (permissions, a missing parent directory), \<open>mkdir_error\<close> the one raised by
  \<^verbatim>\<open>path.parent.mkdir(parents=True, exist_ok=True)\<close>, \<open>unlink_error\<close> the one raised by
  \<^verbatim>\<open>path.unlink()\<close>, and \<open>run_python\<close> is what \<^verbatim>\<open>subprocess.run([sys.executable, "-c",
  code], capture_output=True, text=True, timeout=10)\<close> does: it completes, times out or
  raises, and the child may have changed the file system meanwhile.
\<close>

datatype node = File string | Dir

type_synonym filesystem = "(string \<times> node) list"

datatype run_outcome =
    Completed string string int
  | TimeoutExpired
  | RunError string

record os_env =
  read_error :: "string \<Rightarrow> string option"
  write_error :: "string \<Rightarrow> string option"
  mkdir_error :: "string \<Rightarrow> string option"
  unlink_error :: "string \<Rightarrow> string option"
  run_python :: "string \<Rightarrow> filesystem \<Rightarrow> run_outcome \<times> filesystem"

text \<open>\<^verbatim>\<open>path.exists()\<close>.\<close>

definition path_exists :: "filesystem \<Rightarrow> string \<Rightarrow> bool" where
  "path_exists fs p = (map_of fs p \<noteq> None)"

text \<open>Reading in text mode translates \<^verbatim>\<open>\r\n\<close> and a lone \<^verbatim>\<open>\r\<close> to \<^verbatim>\<open>\n\<close>
  (universal newlines, the default of \<^verbatim>\<open>read_text\<close>).\<close>

fun universal_newlines :: "string \<Rightarrow> string" where
  "universal_newlines [] = []"
| "universal_newlines [c] = (if c = CHR 0x0D then [CHR 0x0A] else [c])"
| "universal_newlines (c # d # ds) =
     (if c = CHR 0x0D \<and> d = CHR 0x0A then CHR 0x0A # universal_newlines ds
      else if c = CHR 0x0D then CHR 0x0A # universal_newlines (d # ds)
      else c # universal_newlines (d # ds))"

definition quoted :: "string \<Rightarrow> string" where
  "quoted p = [CHR 0x27] @ p @ [CHR 0x27]"

definition no_such_file :: "string \<Rightarrow> string" where
  "no_such_file p = ''[Errno 2] No such file or directory: '' @ quoted p"

definition is_a_directory :: "string \<Rightarrow> string" where
  "is_a_directory p = ''[Errno 21] Is a directory: '' @ quoted p"

text \<open>\<^verbatim>\<open>path.read_text()\<close>: the text of the file, or the message of the exception.\<close>

definition read_text :: "os_env \<Rightarrow> filesystem \<Rightarrow> string \<Rightarrow> string + string" where
  "read_text env fs p =
     (case read_error env p of
        Some m \<Rightarrow> Inl m
      | None \<Rightarrow>
          (case map_of fs p of
             None \<Rightarrow> Inl (no_such_file p)
           | Some Dir \<Rightarrow> Inl (is_a_directory p)
           | Some (File c) \<Rightarrow> Inr (universal_newlines c)))"

text \<open>\<^verbatim>\<open>path.write_text(c)\<close> for a string \<^verbatim>\<open>c\<close>: the file is created or replaced.\<close>

definition write_text :: "os_env \<Rightarrow> filesystem \<Rightarrow> string \<Rightarrow> string \<Rightarrow> string + filesystem" where
  "write_text env fs p c =
     (case write_error env p of
        Some m \<Rightarrow> Inl m
      | None \<Rightarrow>
          (case map_of fs p of
             Some Dir \<Rightarrow> Inl (is_a_directory p)
           | _ \<Rightarrow> Inr (AList.update p (File c) fs)))"

text \<open>The parents of a path: its proper prefixes that end before a separator.\<close>

definition parents_of :: "string \<Rightarrow> string list" where
  "parents_of p = map (\<lambda>i. take i p) (filter (\<lambda>i. p ! i = CHR ''/'') [1..<length p])"

definition file_exists_msg :: "string \<Rightarrow> string" where
  "file_exists_msg p = ''[Errno 17] File exists: '' @ quoted p"

definition is_file :: "filesystem \<Rightarrow> string \<Rightarrow> bool" where
  "is_file fs d = (case map_of fs d of Some (File c) \<Rightarrow> True | _ \<Rightarrow> False)"

definition add_dir :: "string \<Rightarrow> filesystem \<Rightarrow> filesystem" where
  "add_dir d fs = (if path_exists fs d then fs else fs @ [(d, Dir)])"

text \<open>\<^verbatim>\<open>path.parent.mkdir(parents=True, exist_ok=True)\<close>: every missing parent becomes a
  directory; a parent that is a file is an error.\<close>

definition mkdir_parents :: "os_env \<Rightarrow> filesystem \<Rightarrow> string \<Rightarrow> string + filesystem" where
  "mkdir_parents env fs p =
     (case mkdir_error env p of
        Some m \<Rightarrow> Inl m
      | None \<Rightarrow>
          (case filter (is_file fs) (parents_of p) of
             d # ds \<Rightarrow> Inl (file_exists_msg d)
           | [] \<Rightarrow> Inr (fold add_dir (parents_of p) fs)))"

text \<open>The messages of the \<^verbatim>\<open>TypeError\<close> and \<^verbatim>\<open>AttributeError\<close> raised when an integer
  is used where a string is needed.\<close>

definition path_type_error :: string where
  "path_type_error = ''expected str, bytes or os.PathLike object, not int''"

definition data_type_error :: string where
  "data_type_error = ''data must be str, not int''"

definition attribute_error :: "string \<Rightarrow> string" where
  "attribute_error a = quoted ''int'' @ '' object has no attribute '' @ quoted a"

section \<open>The code server\<close>

text \<open>The external effects of the handlers are recorded, in order, in the state.\<close>

datatype effect =
    FsExists string
  | FsRead string
  | FsMkdir string
  | FsWrite string
  | FsUnlink string
  | FsGlob
  | Spawn string

record code_state =
  code_store :: "(pyval \<times> pyval) list"
  code_fs :: filesystem
  code_effects :: "effect list"

definition code_log :: "effect \<Rightarrow> code_state \<Rightarrow> code_state" where
  "code_log e s = s\<lparr>code_effects := code_effects s @ [e]\<rparr>"

record tool =
  tool_name :: string
  tool_description :: string
  tool_required :: "string list"

definition code_list_tools :: "tool list" where
  "code_list_tools =
    [\<lparr>tool_name = ''read_file'', tool_description = ''Read the contents of a file'',
       tool_required = [''file_path'']\<rparr>,
     \<lparr>tool_name = ''write_file'', tool_description = ''Write content to a file'',
       tool_required = [''file_path'', ''content'']\<rparr>,
     \<lparr>tool_name = ''execute_code'', tool_description = ''Execute Python code and return the result'',
       tool_required = [''code'']\<rparr>,
     \<lparr>tool_name = ''save_code_snippet'', tool_description = ''Save a code snippet for later retrieval'',
       tool_required = [''name'', ''code'']\<rparr>,
     \<lparr>tool_name = ''list_code_snippets'', tool_description = ''List all saved code snippets'',
       tool_required = []\<rparr>]"


text \<open>The branches of \<^verbatim>\<open>call_tool\<close>, one definition per tool.\<close>

definition code_read_file :: "os_env \<Rightarrow> arguments \<Rightarrow> code_state \<Rightarrow> response \<times> code_state" where
  "code_read_file env arguments s =
     (let file_path = arg_get arguments ''file_path'' in
      if \<not> truthy file_path then (Inl (ValueError ''file_path is required''), s)
      else
        (case file_path of
           PStr p \<Rightarrow>
             (let s1 = code_log (FsExists p) s in
              if \<not> path_exists (code_fs s1) p then
                (Inr [TextContent (''Error: File not found: '' @ p)], s1)
              else
                (case read_text env (code_fs s1) p of
                   Inl e \<Rightarrow> (Inr [TextContent (''Error reading file: '' @ e)], code_log (FsRead p) s1)
                 | Inr content \<Rightarrow>
                     (Inr [TextContent (''File contents of '' @ p @ '':'' @ nl @ nl @ content)],
                      code_log (FsRead p) s1)))
         | _ \<Rightarrow> (Inr [TextContent (''Error reading file: '' @ path_type_error)], s)))"

definition code_write_file :: "os_env \<Rightarrow> arguments \<Rightarrow> code_state \<Rightarrow> response \<times> code_state" where
  "code_write_file env arguments s =
     (let file_path = arg_get arguments ''file_path'';
          content = arg_get arguments ''content'' in
      if \<not> truthy file_path \<or> content = PNone then
        (Inl (ValueError ''file_path and content are required''), s)
      else
        (case file_path of
           PStr p \<Rightarrow>
             (let s1 = code_log (FsMkdir p) s in
              case mkdir_parents env (code_fs s1) p of
                Inl e \<Rightarrow> (Inr [TextContent (''Error writing file: '' @ e)], s1)
              | Inr fs1 \<Rightarrow>
                  (let s2 = s1\<lparr>code_fs := fs1\<rparr> in
                   case content of
                     PStr c \<Rightarrow>
                       (case write_text env fs1 p c of
                          Inl e \<Rightarrow> (Inr [TextContent (''Error writing file: '' @ e)], code_log (FsWrite p) s2)
                        | Inr fs2 \<Rightarrow>
                            (Inr [TextContent (''Successfully wrote '' @ str_of_nat (length c)
                                    @ '' characters to '' @ p)],
                             code_log (FsWrite p) (s2\<lparr>code_fs := fs2\<rparr>)))
                   | _ \<Rightarrow> (Inr [TextContent (''Error writing file: '' @ data_type_error)], s2)))
         | _ \<Rightarrow> (Inr [TextContent (''Error writing file: '' @ path_type_error)], s)))"

definition code_execute_code :: "os_env \<Rightarrow> arguments \<Rightarrow> code_state \<Rightarrow> response \<times> code_state" where
  "code_execute_code env arguments s =
     (let code = arg_get arguments ''code'' in
      if \<not> truthy code then (Inl (ValueError ''code is required''), s)
      else
        (case code of
           PStr c \<Rightarrow>
             (let (outcome, fs1) = run_python env c (code_fs s);
                  s1 = code_log (Spawn c) (s\<lparr>code_fs := fs1\<rparr>) in
              case outcome of
                Completed out err returncode \<Rightarrow>
                  (let output = (if err \<noteq> [] then out @ nl @ ''[stderr]'' @ nl @ err else out);
                       output = (if returncode \<noteq> 0
                                 then ''[Error - exit code '' @ str_of_int returncode @ '']'' @ nl @ output
                                 else output) in
                   (Inr [TextContent (''Execution result:'' @ nl @ output)], s1))
              | TimeoutExpired \<Rightarrow>
                  (Inr [TextContent ''Error: Code execution timed out (max 10 seconds)''], s1)
              | RunError e \<Rightarrow> (Inr [TextContent (''Error executing code: '' @ e)], s1))
         | _ \<Rightarrow> (Inr [TextContent (''Error executing code: '' @ path_type_error)], s)))"

definition code_save_code_snippet :: "arguments \<Rightarrow> code_state \<Rightarrow> response \<times> code_state" where
  "code_save_code_snippet arguments s =
     (let name = arg_get arguments ''name'';
          code = arg_get arguments ''code'' in
      if \<not> truthy name \<or> \<not> truthy code then (Inl (ValueError ''name and code are required''), s)
      else
        (Inr [TextContent (''Code snippet '' @ quoted (py_str name) @ '' saved successfully'')],
         s\<lparr>code_store := AList.update name code (code_store s)\<rparr>))"

definition code_list_code_snippets :: "code_state \<Rightarrow> response \<times> code_state" where
  "code_list_code_snippets s =
     (if code_store s = [] then (Inr [TextContent ''No code snippets saved yet''], s)
      else
        (Inr [TextContent (''Saved code snippets:'' @ nl
                @ join nl (map (\<lambda>(name, code). ''- '' @ py_str name) (code_store s)))], s))"

definition code_call_tool :: "os_env \<Rightarrow> string \<Rightarrow> arguments \<Rightarrow> code_state \<Rightarrow> response \<times> code_state" where
  "code_call_tool env name arguments s =
     (if name = ''read_file'' then code_read_file env arguments s
      else if name = ''write_file'' then code_write_file env arguments s
      else if name = ''execute_code'' then code_execute_code env arguments s
      else if name = ''save_code_snippet'' then code_save_code_snippet arguments s
      else if name = ''list_code_snippets'' then code_list_code_snippets s
      else (Inl (ValueError (''Unknown tool: '' @ name)), s))"


section \<open>The document server\<close>

record doc_state =
  document_index :: "(pyval \<times> string) list"
  doc_fs :: filesystem
  doc_effects :: "effect list"

definition doc_log :: "effect \<Rightarrow> doc_state \<Rightarrow> doc_state" where
  "doc_log e s = s\<lparr>doc_effects := doc_effects s @ [e]\<rparr>"

text \<open>\<^verbatim>\<open>DOCUMENTS_DIR / f"{doc_name}.txt"\<close>: an absolute name replaces the directory.\<close>

definition doc_path :: "pyval \<Rightarrow> string" where
  "doc_path doc_name =
     (let n = py_str doc_name in
      if startswith n ''/'' then n @ ''.txt'' else ''documents/'' @ n @ ''.txt'')"

text \<open>\<^verbatim>\<open>index_document\<close>: the index keeps the lower-cased text.\<close>

definition index_document :: "pyval \<Rightarrow> string \<Rightarrow> (pyval \<times> string) list \<Rightarrow> (pyval \<times> string) list" where
  "index_document name content idx = AList.update name (lower content) idx"

definition endswith :: "string \<Rightarrow> string \<Rightarrow> bool" where
  "endswith s p = startswith (rev s) (rev p)"

text \<open>\<^verbatim>\<open>Path.stem\<close> of a file name that ends in \<^verbatim>\<open>.txt\<close>: the name without the suffix,
  except that the name \<^verbatim>\<open>.txt\<close> has no suffix.\<close>

definition stem :: "string \<Rightarrow> string" where
  "stem f = (if f = ''.txt'' then f else take (length f - 4) f)"

text \<open>\<^verbatim>\<open>DOCUMENTS_DIR.glob("*.txt")\<close>: the entries of the directory itself whose name ends
  in \<^verbatim>\<open>.txt\<close>, as pairs of stem and path, in listing order.\<close>

definition glob_txt :: "filesystem \<Rightarrow> (string \<times> string) list" where
  "glob_txt fs =
     map (\<lambda>p. (stem (drop 10 p), p))
       (filter (\<lambda>p. startswith p ''documents/'' \<and> CHR ''/'' \<notin> set (drop 10 p)
                     \<and> endswith (drop 10 p) ''.txt'')
          (map fst fs))"

definition doc_list_tools :: "tool list" where
  "doc_list_tools =
    [\<lparr>tool_name = ''create_document'', tool_description = ''Create a new text document'',
       tool_required = [''name'', ''content'']\<rparr>,
     \<lparr>tool_name = ''read_document'', tool_description = ''Read the contents of a document'',
       tool_required = [''name'']\<rparr>,
     \<lparr>tool_name = ''list_documents'', tool_description = ''List all available documents'',
       tool_required = []\<rparr>,
     \<lparr>tool_name = ''search_documents'', tool_description = ''Search for text in all documents'',
       tool_required = [''query'']\<rparr>,
     \<lparr>tool_name = ''append_to_document'', tool_description = ''Append text to an existing document'',
       tool_required = [''name'', ''content'']\<rparr>,
     \<lparr>tool_name = ''delete_document'', tool_description = ''Delete a document'',
       tool_required = [''name'']\<rparr>]"


definition doc_create_document :: "os_env \<Rightarrow> arguments \<Rightarrow> doc_state \<Rightarrow> response \<times> doc_state" where
  "doc_create_document env arguments s =
     (let doc_name = arg_get arguments ''name'';
          content = arg_get arguments ''content'' in
      if \<not> truthy doc_name \<or> \<not> truthy content then
        (Inl (ValueError ''name and content are required''), s)
      else
        (case content of
           PStr c \<Rightarrow>
             (let s1 = doc_log (FsWrite (doc_path doc_name)) s in
              case write_text env (doc_fs s1) (doc_path doc_name) c of
                Inl e \<Rightarrow> (Inr [TextContent (''Error creating document: '' @ e)], s1)
              | Inr fs1 \<Rightarrow>
                  (Inr [TextContent (''Document '' @ quoted (py_str doc_name)
                          @ '' created successfully ('' @ str_of_nat (length c) @ '' characters)'')],
                   s1\<lparr>doc_fs := fs1,
                      document_index := index_document doc_name c (document_index s1)\<rparr>))
         | _ \<Rightarrow> (Inr [TextContent (''Error creating document: '' @ data_type_error)], s)))"

definition doc_read_document :: "os_env \<Rightarrow> arguments \<Rightarrow> doc_state \<Rightarrow> response \<times> doc_state" where
  "doc_read_document env arguments s =
     (let doc_name = arg_get arguments ''name'' in
      if \<not> truthy doc_name then (Inl (ValueError ''name is required''), s)
      else
        (let s1 = doc_log (FsExists (doc_path doc_name)) s in
         if \<not> path_exists (doc_fs s1) (doc_path doc_name) then
           (Inr [TextContent (''Document '' @ quoted (py_str doc_name) @ '' not found'')], s1)
         else
           (case read_text env (doc_fs s1) (doc_path doc_name) of
              Inl e \<Rightarrow> (Inr [TextContent (''Error reading document: '' @ e)],
                        doc_log (FsRead (doc_path doc_name)) s1)
            | Inr content \<Rightarrow>
                (Inr [TextContent (''Document '' @ quoted (py_str doc_name) @ '':'' @ nl @ nl @ content)],
                 doc_log (FsRead (doc_path doc_name)) s1))))"

definition doc_list_documents :: "doc_state \<Rightarrow> response \<times> doc_state" where
  "doc_list_documents s =
     (let docs = glob_txt (doc_fs s);
          s1 = doc_log FsGlob s in
      if docs = [] then (Inr [TextContent ''No documents found''], s1)
      else
        (Inr [TextContent (''Available documents ('' @ str_of_nat (length docs) @ ''):'' @ nl
                @ join nl (map (\<lambda>p. ''- '' @ stem (drop 10 p)) (sort (map snd docs))))], s1))"


text \<open>The first loop of \<^verbatim>\<open>search_documents\<close>, over the index.\<close>

definition search_index :: "string \<Rightarrow> (pyval \<times> string) list \<Rightarrow> (pyval \<times> nat) list" where
  "search_index query_lower idx =
     map (\<lambda>(doc_name, content). (doc_name, str_count content query_lower))
       (filter (\<lambda>(doc_name, content). str_contains content query_lower) idx)"

text \<open>The second loop, over the files: a file whose stem is not in the index is read; if
  it matches it is counted and indexed (the call of \<^verbatim>\<open>index_document\<close> is inside the
  \<^verbatim>\<open>if query_lower in content\<close>). An exception of \<^verbatim>\<open>read_text\<close> ends the loop; what was
  indexed before stays indexed.\<close>

fun search_files :: "os_env \<Rightarrow> string \<Rightarrow> (string \<times> string) list \<Rightarrow> (pyval \<times> nat) list
    \<Rightarrow> doc_state \<Rightarrow> (string + (pyval \<times> nat) list) \<times> doc_state" where
  "search_files env query_lower [] matches s = (Inr matches, s)"
| "search_files env query_lower ((st, p) # docs) matches s =
     (if map_of (document_index s) (PStr st) = None then
        (let s1 = doc_log (FsRead p) s in
         case read_text env (doc_fs s1) p of
           Inl e \<Rightarrow> (Inl e, s1)
         | Inr text \<Rightarrow>
             (if str_contains (lower text) query_lower then
                search_files env query_lower docs
                  (matches @ [(PStr st, str_count (lower text) query_lower)])
                  (doc_log (FsRead p)
                     (s1\<lparr>document_index := index_document (PStr st) text (document_index s1)\<rparr>))
              else search_files env query_lower docs matches s1))
      else search_files env query_lower docs matches s)"

fun is_pstr :: "pyval \<Rightarrow> bool" where
  "is_pstr (PStr x) = True"
| "is_pstr v = False"

fun is_pint :: "pyval \<Rightarrow> bool" where
  "is_pint (PInt x) = True"
| "is_pint v = False"

fun str_of :: "pyval \<Rightarrow> string" where
  "str_of (PStr x) = x"
| "str_of v = []"

fun int_of :: "pyval \<Rightarrow> int" where
  "int_of (PInt x) = x"
| "int_of v = 0"

definition not_orderable :: string where
  "not_orderable = quoted ''<'' @ '' not supported between instances of ''
     @ quoted ''str'' @ '' and '' @ quoted ''int''"

text \<open>\<^verbatim>\<open>sorted(matches)\<close> on pairs of name and count: strings are ordered among
  themselves, integers among themselves; comparing a string with an integer (or
  \<^verbatim>\<open>None\<close> with anything) raises \<^verbatim>\<open>TypeError\<close>. A list of at most one pair is not
  compared at all.\<close>

definition py_sorted :: "(pyval \<times> nat) list \<Rightarrow> string + (pyval \<times> nat) list" where
  "py_sorted ms =
     (if length ms \<le> 1 then Inr ms
      else if list_all (\<lambda>(n, c). is_pstr n) ms then
        Inr (map (\<lambda>(n, c). (PStr n, c)) (sort (map (\<lambda>(n, c). (str_of n, c)) ms)))
      else if list_all (\<lambda>(n, c). is_pint n) ms then
        Inr (map (\<lambda>(n, c). (PInt n, c)) (sort (map (\<lambda>(n, c). (int_of n, c)) ms)))
      else Inl not_orderable)"

definition doc_search_documents :: "os_env \<Rightarrow> arguments \<Rightarrow> doc_state \<Rightarrow> response \<times> doc_state" where
  "doc_search_documents env arguments s =
     (let query = arg_get arguments ''query'' in
      if \<not> truthy query then (Inl (ValueError ''query is required''), s)
      else
        (case query of
           PStr q \<Rightarrow>
             (let query_lower = lower q;
                  matches = search_index query_lower (document_index s);
                  s1 = doc_log FsGlob s in
              case search_files env query_lower (glob_txt (doc_fs s1)) matches s1 of
                (Inl e, s2) \<Rightarrow> (Inr [TextContent (''Error searching documents: '' @ e)], s2)
              | (Inr matches, s2) \<Rightarrow>
                  (if matches \<noteq> [] then
                     (case py_sorted matches of
                        Inl e \<Rightarrow> (Inr [TextContent (''Error searching documents: '' @ e)], s2)
                      | Inr sorted_matches \<Rightarrow>
                          (Inr [TextContent (''Search results for '' @ quoted q @ '':'' @ nl
                                  @ join nl (map (\<lambda>(name, count). ''- '' @ py_str name @ '' (''
                                       @ str_of_nat count @ '' occurrence(s))'') sorted_matches))], s2))
                   else
                     (Inr [TextContent (''No documents found containing '' @ quoted q)], s2)))
         | _ \<Rightarrow> (Inr [TextContent (''Error searching documents: '' @ attribute_error ''lower'')], s)))"

definition concat_type_error :: string where
  "concat_type_error = ''can only concatenate str (not \"int\") to str''"

definition doc_append_to_document :: "os_env \<Rightarrow> arguments \<Rightarrow> doc_state \<Rightarrow> response \<times> doc_state" where
  "doc_append_to_document env arguments s =
     (let doc_name = arg_get arguments ''name'';
          content = arg_get arguments ''content'' in
      if \<not> truthy doc_name \<or> \<not> truthy content then
        (Inl (ValueError ''name and content are required''), s)
      else
        (let s1 = doc_log (FsExists (doc_path doc_name)) s in
         if \<not> path_exists (doc_fs s1) (doc_path doc_name) then
           (Inr [TextContent (''Document '' @ quoted (py_str doc_name)
                   @ '' not found. Use create_document first.'')], s1)
         else
           (let s2 = doc_log (FsRead (doc_path doc_name)) s1 in
            case read_text env (doc_fs s2) (doc_path doc_name) of
              Inl e \<Rightarrow> (Inr [TextContent (''Error appending to document: '' @ e)], s2)
            | Inr existing_content \<Rightarrow>
                (case content of
                   PStr c \<Rightarrow>
                     (let new_content = existing_content @ nl @ c;
                          s3 = doc_log (FsWrite (doc_path doc_name)) s2 in
                      case write_text env (doc_fs s3) (doc_path doc_name) new_content of
                        Inl e \<Rightarrow> (Inr [TextContent (''Error appending to document: '' @ e)], s3)
                      | Inr fs1 \<Rightarrow>
                          (Inr [TextContent (''Appended '' @ str_of_nat (length c) @ '' characters to ''
                                  @ quoted (py_str doc_name))],
                           s3\<lparr>doc_fs := fs1,
                              document_index := index_document doc_name new_content (document_index s3)\<rparr>))
                 | _ \<Rightarrow> (Inr [TextContent (''Error appending to document: '' @ concat_type_error)], s2)))))"

text \<open>\<^verbatim>\<open>path.unlink()\<close>.\<close>

definition unlink :: "os_env \<Rightarrow> filesystem \<Rightarrow> string \<Rightarrow> string + filesystem" where
  "unlink env fs p =
     (case unlink_error env p of
        Some m \<Rightarrow> Inl m
      | None \<Rightarrow>
          (case map_of fs p of
             None \<Rightarrow> Inl (no_such_file p)
           | Some Dir \<Rightarrow> Inl (is_a_directory p)
           | Some (File c) \<Rightarrow> Inr (AList.delete p fs)))"

definition doc_delete_document :: "os_env \<Rightarrow> arguments \<Rightarrow> doc_state \<Rightarrow> response \<times> doc_state" where
  "doc_delete_document env arguments s =
     (let doc_name = arg_get arguments ''name'' in
      if \<not> truthy doc_name then (Inl (ValueError ''name is required''), s)
      else
        (let s1 = doc_log (FsExists (doc_path doc_name)) s in
         if \<not> path_exists (doc_fs s1) (doc_path doc_name) then
           (Inr [TextContent (''Document '' @ quoted (py_str doc_name) @ '' not found'')], s1)
         else
           (let s2 = doc_log (FsUnlink (doc_path doc_name)) s1 in
            case unlink env (doc_fs s2) (doc_path doc_name) of
              Inl e \<Rightarrow> (Inr [TextContent (''Error deleting document: '' @ e)], s2)
            | Inr fs1 \<Rightarrow>
                (Inr [TextContent (''Document '' @ quoted (py_str doc_name) @ '' deleted successfully'')],
                 s2\<lparr>doc_fs := fs1,
                    document_index := AList.delete doc_name (document_index s2)\<rparr>))))"

definition doc_call_tool :: "os_env \<Rightarrow> string \<Rightarrow> arguments \<Rightarrow> doc_state \<Rightarrow> response \<times> doc_state" where
  "doc_call_tool env name arguments s =
     (if name = ''create_document'' then doc_create_document env arguments s
      else if name = ''read_document'' then doc_read_document env arguments s
      else if name = ''list_documents'' then doc_list_documents s
      else if name = ''search_documents'' then doc_search_documents env arguments s
      else if name = ''append_to_document'' then doc_append_to_document env arguments s
      else if name = ''delete_document'' then doc_delete_document env arguments s
      else (Inl (ValueError (''Unknown tool: '' @ name)), s))"


section \<open>The database server\<close>

text \<open>
  The database is the SQLite file the handlers open with \<^verbatim>\<open>get_connection\<close>. Its
  \<^verbatim>\<open>users\<close> table is modelled row by row, with the constraints that
  \<^verbatim>\<open>init_database\<close> declares (\<^verbatim>\<open>id INTEGER PRIMARY KEY AUTOINCREMENT\<close>,
  \<^verbatim>\<open>email TEXT UNIQUE NOT NULL\<close>); \<open>master\<close> lists the tables by name. What SQLite does with
  a statement that the caller wrote is an oracle of the environment, \<open>sql_execute\<close>: the
  message of the exception, or the rows fetched, the row count and the database with the
  statement's changes pending. The JSON text of rows, the clock and the conversion of a
  text stored in an \<^verbatim>\<open>INTEGER\<close> column are oracles too. The \<^verbatim>\<open>REAL\<close> price of a product is
  kept as its decimal literal.
\<close>

datatype sqlval = SNull | SInt int | SText string

type_synonym row = "(string \<times> sqlval) list"

record user_row =
  user_id :: int
  user_name :: string
  user_email :: string
  user_age :: sqlval
  user_created_at :: string

record database =
  master :: "string list"
  users :: "user_row list"
  users_seq :: int
  products :: "(string \<times> string \<times> string \<times> int) list"

record db_env =
  sql_execute :: "string \<Rightarrow> database \<Rightarrow> string + (row list \<times> int \<times> database)"
  json_dumps :: "row list \<Rightarrow> string"
  json_dumps_tables :: "database \<Rightarrow> string \<Rightarrow> string"
  current_timestamp :: "database \<Rightarrow> string"
  integer_affinity :: "string \<Rightarrow> sqlval"

datatype db_effect = DbConnect | DbExecute string | DbCommit | DbRollback | DbClose

record db_state =
  db :: database
  db_effects :: "db_effect list"

definition db_log :: "db_effect \<Rightarrow> db_state \<Rightarrow> db_state" where
  "db_log e s = s\<lparr>db_effects := db_effects s @ [e]\<rparr>"

datatype sql_exception = IntegrityError string | OtherSqlError string

text \<open>A bound parameter: an integer must fit SQLite's 64-bit \<^verbatim>\<open>INTEGER\<close>.\<close>

fun bindable :: "pyval \<Rightarrow> bool" where
  "bindable (PInt i) = (- (2 ^ 63) \<le> i \<and> i < 2 ^ 63)"
| "bindable v = True"

text \<open>A value stored in a \<^verbatim>\<open>TEXT\<close> column.\<close>

definition sql_text :: "pyval \<Rightarrow> string" where
  "sql_text v = py_str v"

fun sql_integer :: "db_env \<Rightarrow> pyval \<Rightarrow> sqlval" where
  "sql_integer env PNone = SNull"
| "sql_integer env (PInt i) = SInt i"
| "sql_integer env (PStr t) = integer_affinity env t"

definition next_user_id :: "database \<Rightarrow> int" where
  "next_user_id d = fold max (map user_id (users d)) (users_seq d) + 1"

text \<open>\<^verbatim>\<open>INSERT INTO users (name, email, age) VALUES (?, ?, ?)\<close> followed by
  \<^verbatim>\<open>conn.commit()\<close>: the new row id and the database, or the exception. The statement
  is prepared (the table must exist), then the parameters are bound, then the row is
  checked against the constraints; the guard of the handler has excluded the null name
  and email that \<^verbatim>\<open>NOT NULL\<close> would refuse.\<close>

definition sql_insert_user :: "db_env \<Rightarrow> database \<Rightarrow> pyval \<Rightarrow> pyval \<Rightarrow> pyval
    \<Rightarrow> sql_exception + (int \<times> database)" where
  "sql_insert_user env d name email age =
     (if ''users'' \<notin> set (master d) then Inl (OtherSqlError ''no such table: users'')
      else if \<not> (bindable name \<and> bindable email \<and> bindable age) then
        Inl (OtherSqlError ''Python int too large to convert to SQLite INTEGER'')
      else if sql_text email \<in> set (map user_email (users d)) then
        Inl (IntegrityError ''UNIQUE constraint failed: users.email'')
      else
        (let new_id = next_user_id d in
         Inr (new_id,
              d\<lparr>users := users d @ [\<lparr>user_id = new_id, user_name = sql_text name,
                                      user_email = sql_text email, user_age = sql_integer env age,
                                      user_created_at = current_timestamp env d\<rparr>],
                users_seq := new_id\<rparr>)))"

text \<open>\<^verbatim>\<open>init_database\<close>: both tables are created if absent, and seeded if empty.\<close>

definition create_table_if_not_exists :: "string \<Rightarrow> string list \<Rightarrow> string list" where
  "create_table_if_not_exists t m =
     (if t \<in> set m then m
      else if ''sqlite_sequence'' \<in> set m then m @ [t]
      else m @ [t, ''sqlite_sequence''])"

definition seed_users :: "db_env \<Rightarrow> database \<Rightarrow> database" where
  "seed_users env d =
     (let ts = current_timestamp env d in
      d\<lparr>users :=
          [\<lparr>user_id = next_user_id d, user_name = ''Alice Johnson'', user_email = ''alice@example.com'',
            user_age = SInt 30, user_created_at = ts\<rparr>,
           \<lparr>user_id = next_user_id d + 1, user_name = ''Bob Smith'', user_email = ''bob@example.com'',
            user_age = SInt 25, user_created_at = ts\<rparr>,
           \<lparr>user_id = next_user_id d + 2, user_name = ''Charlie Brown'',
            user_email = ''charlie@example.com'', user_age = SInt 35, user_created_at = ts\<rparr>],
        users_seq := next_user_id d + 2\<rparr>)"

definition init_database :: "db_env \<Rightarrow> database \<Rightarrow> database" where
  "init_database env d =
     (let d1 = d\<lparr>master := create_table_if_not_exists ''products''
                   (create_table_if_not_exists ''users'' (master d))\<rparr>;
          d2 = (if users d1 = [] then seed_users env d1 else d1) in
      if products d2 = [] then
        d2\<lparr>products := [(''Laptop'', ''999.99'', ''Electronics'', 10),
                        (''Mouse'', ''29.99'', ''Electronics'', 50),
                        (''Desk Chair'', ''199.99'', ''Furniture'', 15)]\<rparr>
      else d2)"

definition db_list_tools :: "tool list" where
  "db_list_tools =
    [\<lparr>tool_name = ''execute_query'', tool_description = ''Execute a SQL query and return results'',
       tool_required = [''query'']\<rparr>,
     \<lparr>tool_name = ''list_tables'', tool_description = ''List all tables in the database'',
       tool_required = []\<rparr>,
     \<lparr>tool_name = ''describe_table'',
       tool_description = ''Get schema information for a specific table'',
       tool_required = [''table_name'']\<rparr>,
     \<lparr>tool_name = ''insert_user'', tool_description = ''Insert a new user into the users table'',
       tool_required = [''name'', ''email'', ''age'']\<rparr>,
     \<lparr>tool_name = ''get_user'', tool_description = ''Get a user by email'',
       tool_required = [''email'']\<rparr>]"


definition allowed_commands :: "string list" where
  "allowed_commands = [''SELECT'', ''INSERT'', ''UPDATE'', ''DELETE'']"

definition db_execute_query :: "db_env \<Rightarrow> arguments \<Rightarrow> db_state \<Rightarrow> response \<times> db_state" where
  "db_execute_query env arguments s =
     (let query = arg_get arguments ''query'' in
      if \<not> truthy query then (Inl (ValueError ''query is required''), s)
      else
        (let s1 = db_log DbConnect s in
         case query of
           PStr q \<Rightarrow>
             (let query_upper = upper (strip q) in
              if \<not> list_ex (\<lambda>cmd. startswith query_upper cmd) allowed_commands then
                (Inr [TextContent ''Error: Only SELECT, INSERT, UPDATE, DELETE queries are allowed''],
                 db_log DbClose s1)
              else
                (let s2 = db_log (DbExecute q) s1 in
                 case sql_execute env q (db s2) of
                   Inl e \<Rightarrow>
                     (Inr [TextContent (''Error executing query: '' @ e)],
                      db_log DbClose (db_log DbRollback s2))
                 | Inr (rows, rowcount, d1) \<Rightarrow>
                     (if startswith query_upper ''SELECT'' then
                        (if rows \<noteq> [] then
                           (Inr [TextContent (''Query results ('' @ str_of_nat (length rows) @ '' rows):''
                                   @ nl @ json_dumps env rows)], db_log DbClose s2)
                         else
                           (Inr [TextContent ''Query executed successfully, but returned no results''],
                            db_log DbClose s2))
                      else
                        (Inr [TextContent (''Query executed successfully. Rows affected: ''
                                @ str_of_int rowcount)],
                         db_log DbClose (db_log DbCommit (s2\<lparr>db := d1\<rparr>))))))
         | _ \<Rightarrow>
             (Inr [TextContent (''Error executing query: '' @ attribute_error ''strip'')],
              db_log DbClose (db_log DbRollback s1))))"

definition db_list_tables :: "db_state \<Rightarrow> response \<times> db_state" where
  "db_list_tables s =
     (let s1 = db_log (DbExecute (''SELECT name FROM sqlite_master WHERE type='' @ quoted ''table''))
                 (db_log DbConnect s) in
      (Inr [TextContent (''Database tables:'' @ nl @ join nl (map (\<lambda>t. ''- '' @ t) (master (db s1))))],
       db_log DbClose s1))"

fun sql_str :: "sqlval \<Rightarrow> string" where
  "sql_str SNull = ''None''"
| "sql_str (SInt i) = str_of_int i"
| "sql_str (SText t) = t"

fun sql_truthy :: "sqlval \<Rightarrow> bool" where
  "sql_truthy SNull = False"
| "sql_truthy (SInt i) = (i \<noteq> 0)"
| "sql_truthy (SText t) = (t \<noteq> [])"

definition index_error :: string where
  "index_error = ''Index out of range''"

text \<open>One line of \<^verbatim>\<open>column_info\<close>; \<^verbatim>\<open>col[3]\<close> on a shorter row raises.\<close>

definition column_line :: "row \<Rightarrow> string + string" where
  "column_line col =
     (if length col \<le> 3 then Inl index_error
      else Inr (''- '' @ sql_str (snd (col ! 1)) @ '' ('' @ sql_str (snd (col ! 2)) @ '')''
                @ (if sql_truthy (snd (col ! 3)) then '' NOT NULL'' else [])))"

fun column_lines :: "row list \<Rightarrow> string + string list" where
  "column_lines [] = Inr []"
| "column_lines (col # cols) =
     (case column_line col of
        Inl e \<Rightarrow> Inl e
      | Inr l \<Rightarrow> (case column_lines cols of Inl e \<Rightarrow> Inl e | Inr ls \<Rightarrow> Inr (l # ls)))"

definition db_describe_table :: "db_env \<Rightarrow> arguments \<Rightarrow> db_state \<Rightarrow> response \<times> db_state" where
  "db_describe_table env arguments s =
     (let table_name = arg_get arguments ''table_name'' in
      if \<not> truthy table_name then (Inl (ValueError ''table_name is required''), s)
      else
        (let q = ''PRAGMA table_info('' @ py_str table_name @ '')'';
             s1 = db_log (DbExecute q) (db_log DbConnect s) in
         case sql_execute env q (db s1) of
           Inl e \<Rightarrow> (Inr [TextContent (''Error describing table: '' @ e)], db_log DbClose s1)
         | Inr (columns, rowcount, d1) \<Rightarrow>
             (if columns = [] then
                (Inr [TextContent (''Table '' @ quoted (py_str table_name) @ '' not found'')],
                 db_log DbClose s1)
              else
                (case column_lines columns of
                   Inl e \<Rightarrow> (Inr [TextContent (''Error describing table: '' @ e)], db_log DbClose s1)
                 | Inr column_info \<Rightarrow>
                     (Inr [TextContent (''Table '' @ quoted (py_str table_name) @ '' schema:'' @ nl
                             @ join nl column_info)], db_log DbClose s1)))))"

definition insert_statement :: string where
  "insert_statement = ''INSERT INTO users (name, email, age) VALUES (?, ?, ?)''"

definition db_insert_user :: "db_env \<Rightarrow> arguments \<Rightarrow> db_state \<Rightarrow> response \<times> db_state" where
  "db_insert_user env arguments s =
     (let name = arg_get arguments ''name'';
          email = arg_get arguments ''email'';
          age = arg_get arguments ''age'' in
      if \<not> (truthy name \<and> truthy email \<and> age \<noteq> PNone) then
        (Inl (ValueError ''name, email, and age are required''), s)
      else
        (let s1 = db_log (DbExecute insert_statement) (db_log DbConnect s) in
         case sql_insert_user env (db s1) name email age of
           Inr (lastrowid, d1) \<Rightarrow>
             (Inr [TextContent (''User '' @ quoted (py_str name) @ '' inserted successfully with ID ''
                     @ str_of_int lastrowid)],
              db_log DbClose (db_log DbCommit (s1\<lparr>db := d1\<rparr>)))
         | Inl (IntegrityError e) \<Rightarrow> (Inr [TextContent (''Error: '' @ e)], db_log DbClose s1)
         | Inl (OtherSqlError e) \<Rightarrow>
             (Inr [TextContent (''Error inserting user: '' @ e)],
              db_log DbClose (db_log DbRollback s1))))"

definition select_user_statement :: string where
  "select_user_statement = ''SELECT * FROM users WHERE email = ?''"

definition user_dict :: "user_row \<Rightarrow> row" where
  "user_dict u =
     [(''id'', SInt (user_id u)), (''name'', SText (user_name u)), (''email'', SText (user_email u)),
      (''age'', user_age u), (''created_at'', SText (user_created_at u))]"

definition db_get_user :: "db_env \<Rightarrow> arguments \<Rightarrow> db_state \<Rightarrow> response \<times> db_state" where
  "db_get_user env arguments s =
     (let email = arg_get arguments ''email'' in
      if \<not> truthy email then (Inl (ValueError ''email is required''), s)
      else
        (let s1 = db_log (DbExecute select_user_statement) (db_log DbConnect s) in
         if ''users'' \<notin> set (master (db s1)) then
           (Inl (OtherException ''no such table: users''), db_log DbClose s1)
         else if \<not> bindable email then
           (Inl (OtherException ''Python int too large to convert to SQLite INTEGER''), db_log DbClose s1)
         else
           (case filter (\<lambda>u. user_email u = sql_text email) (users (db s1)) of
              u # us \<Rightarrow>
                (Inr [TextContent (''User found:'' @ nl @ json_dumps env [user_dict u])], db_log DbClose s1)
            | [] \<Rightarrow>
                (Inr [TextContent (''No user found with email: '' @ py_str email)], db_log DbClose s1))))"

definition db_call_tool :: "db_env \<Rightarrow> string \<Rightarrow> arguments \<Rightarrow> db_state \<Rightarrow> response \<times> db_state" where
  "db_call_tool env name arguments s =
     (if name = ''execute_query'' then db_execute_query env arguments s
      else if name = ''list_tables'' then db_list_tables s
      else if name = ''describe_table'' then db_describe_table env arguments s
      else if name = ''insert_user'' then db_insert_user env arguments s
      else if name = ''get_user'' then db_get_user env arguments s
      else (Inl (ValueError (''Unknown tool: '' @ name)), s))"


section \<open>Notions used by the properties\<close>











section \<open>Concrete environments and states\<close>

text \<open>An operating system that refuses nothing and whose interpreter prints nothing; a
  database engine that knows one query; and the states of freshly started servers.\<close>

definition quiet_os :: os_env where
  "quiet_os = \<lparr>read_error = (\<lambda>p. None), write_error = (\<lambda>p. None), mkdir_error = (\<lambda>p. None),
     unlink_error = (\<lambda>p. None), run_python = (\<lambda>c fs. (Completed [] [] 0, fs))\<rparr>"


definition small_engine :: db_env where
  "small_engine =
     \<lparr>sql_execute = (\<lambda>q d. if q = ''SELECT 1'' then Inr ([[(''1'', SInt 1)]], - 1, d)
                           else if q = ''DELETE FROM products'' then Inr ([], 3, d\<lparr>products := []\<rparr>)
                           else if q = ''PRAGMA table_info(nope)'' then Inr ([], - 1, d)
                           else Inl ''near \"FROM\": syntax error''),
      json_dumps = (\<lambda>rows. ''[]''),
      json_dumps_tables = (\<lambda>d k. ''[]''),
      current_timestamp = (\<lambda>d. ''2025-12-01 00:00:00''),
      integer_affinity = SText\<rparr>"

definition empty_code_state :: code_state where
  "empty_code_state = \<lparr>code_store = [], code_fs = [], code_effects = []\<rparr>"

definition empty_doc_state :: doc_state where
  "empty_doc_state = \<lparr>document_index = [], doc_fs = [], doc_effects = []\<rparr>"

definition empty_database :: database where
  "empty_database = \<lparr>master = [], users = [], users_seq = 0, products = []\<rparr>"

definition fresh_db_state :: db_state where
  "fresh_db_state = \<lparr>db = init_database small_engine empty_database, db_effects = []\<rparr>"

section \<open>Argument validation and unknown tools\<close>

lemma arg_get_missing: "a k = None \<or> a k = Some PNone \<Longrightarrow> arg_get a k = PNone"
  by (auto simp: arg_get_def)

lemma code_unknown_tool:
  "name \<notin> set (map tool_name code_list_tools) \<Longrightarrow>
   code_call_tool env name a s = (Inl (ValueError (''Unknown tool: '' @ name)), s)"
  by (simp add: code_list_tools_def code_call_tool_def)

lemma db_unknown_tool:
  "name \<notin> set (map tool_name db_list_tools) \<Longrightarrow>
   db_call_tool env name a s = (Inl (ValueError (''Unknown tool: '' @ name)), s)"
  by (simp add: db_list_tools_def db_call_tool_def)

lemma doc_unknown_tool:
  "name \<notin> set (map tool_name doc_list_tools) \<Longrightarrow>
   doc_call_tool env name a s = (Inl (ValueError (''Unknown tool: '' @ name)), s)"
  by (simp add: doc_list_tools_def doc_call_tool_def)

lemma code_read_file_missing:
  "arg_get a ''file_path'' = PNone \<Longrightarrow>
   code_read_file env a s = (Inl (ValueError ''file_path is required''), s)"
  by (simp add: code_read_file_def)

lemma code_write_file_missing:
  "arg_get a ''file_path'' = PNone \<or> arg_get a ''content'' = PNone \<Longrightarrow>
   code_write_file env a s = (Inl (ValueError ''file_path and content are required''), s)"
  by (auto simp add: code_write_file_def Let_def)

lemma code_execute_code_missing:
  "arg_get a ''code'' = PNone \<Longrightarrow>
   code_execute_code env a s = (Inl (ValueError ''code is required''), s)"
  by (simp add: code_execute_code_def)

lemma code_save_code_snippet_missing:
  "arg_get a ''name'' = PNone \<or> arg_get a ''code'' = PNone \<Longrightarrow>
   code_save_code_snippet a s = (Inl (ValueError ''name and code are required''), s)"
  by (auto simp add: code_save_code_snippet_def Let_def)

lemma code_missing_required:
  assumes "t \<in> set code_list_tools" "k \<in> set (tool_required t)" "arg_get a k = PNone"
  shows "\<exists>m. code_call_tool env (tool_name t) a s = (Inl (ValueError m), s)"
  using assms
  by (auto simp: code_list_tools_def code_call_tool_def code_read_file_missing
      code_write_file_missing code_execute_code_missing code_save_code_snippet_missing)

lemma doc_create_document_missing:
  "arg_get a ''name'' = PNone \<or> arg_get a ''content'' = PNone \<Longrightarrow>
   doc_create_document env a s = (Inl (ValueError ''name and content are required''), s)"
  by (auto simp add: doc_create_document_def Let_def)

lemma doc_read_document_missing:
  "arg_get a ''name'' = PNone \<Longrightarrow>
   doc_read_document env a s = (Inl (ValueError ''name is required''), s)"
  by (simp add: doc_read_document_def)

lemma doc_search_documents_missing:
  "arg_get a ''query'' = PNone \<Longrightarrow>
   doc_search_documents env a s = (Inl (ValueError ''query is required''), s)"
  by (simp add: doc_search_documents_def)

lemma doc_append_to_document_missing:
  "arg_get a ''name'' = PNone \<or> arg_get a ''content'' = PNone \<Longrightarrow>
   doc_append_to_document env a s = (Inl (ValueError ''name and content are required''), s)"
  by (auto simp add: doc_append_to_document_def Let_def)

lemma doc_delete_document_missing:
  "arg_get a ''name'' = PNone \<Longrightarrow>
   doc_delete_document env a s = (Inl (ValueError ''name is required''), s)"
  by (simp add: doc_delete_document_def)

lemma doc_missing_required:
  assumes "t \<in> set doc_list_tools" "k \<in> set (tool_required t)" "arg_get a k = PNone"
  shows "\<exists>m. doc_call_tool env (tool_name t) a s = (Inl (ValueError m), s)"
  using assms
  by (auto simp: doc_list_tools_def doc_call_tool_def doc_create_document_missing
      doc_read_document_missing doc_search_documents_missing doc_append_to_document_missing
      doc_delete_document_missing)

lemma db_execute_query_missing:
  "arg_get a ''query'' = PNone \<Longrightarrow>
   db_execute_query env a s = (Inl (ValueError ''query is required''), s)"
  by (simp add: db_execute_query_def)

lemma db_describe_table_missing:
  "arg_get a ''table_name'' = PNone \<Longrightarrow>
   db_describe_table env a s = (Inl (ValueError ''table_name is required''), s)"
  by (simp add: db_describe_table_def)

lemma db_insert_user_missing:
  "arg_get a ''name'' = PNone \<or> arg_get a ''email'' = PNone \<or> arg_get a ''age'' = PNone \<Longrightarrow>
   db_insert_user env a s = (Inl (ValueError ''name, email, and age are required''), s)"
  by (auto simp add: db_insert_user_def Let_def)

lemma db_get_user_missing:
  "arg_get a ''email'' = PNone \<Longrightarrow>
   db_get_user env a s = (Inl (ValueError ''email is required''), s)"
  by (simp add: db_get_user_def)

lemma db_missing_required:
  assumes "t \<in> set db_list_tools" "k \<in> set (tool_required t)" "arg_get a k = PNone"
  shows "\<exists>m. db_call_tool env (tool_name t) a s = (Inl (ValueError m), s)"
  using assms
  by (auto simp: db_list_tools_def db_call_tool_def db_execute_query_missing
      db_describe_table_missing db_insert_user_missing db_get_user_missing)

text \<open>
  Claim C1. For every tool that a server declares and every argument map in which a key
  that the tool's schema marks as required is absent or null, \<^verbatim>\<open>call_tool\<close> raises a
  \<^verbatim>\<open>ValueError\<close> and leaves the server's state as it was: the check comes before any
  work of the handler, so neither the domain state nor the record of external effects
  changes. This holds for the code, the database and the document server.
\<close>

theorem missing_required_argument_rejected:
  assumes "arguments k = None \<or> arguments k = Some PNone"
  shows "(t \<in> set code_list_tools \<and> k \<in> set (tool_required t) \<longrightarrow>
            (\<exists>m. code_call_tool os (tool_name t) arguments cs = (Inl (ValueError m), cs)))
       \<and> (t \<in> set db_list_tools \<and> k \<in> set (tool_required t) \<longrightarrow>
            (\<exists>m. db_call_tool engine (tool_name t) arguments ds = (Inl (ValueError m), ds)))
       \<and> (t \<in> set doc_list_tools \<and> k \<in> set (tool_required t) \<longrightarrow>
            (\<exists>m. doc_call_tool os (tool_name t) arguments xs = (Inl (ValueError m), xs)))"
proof -
  have "arg_get arguments k = PNone"
    using assms by (rule arg_get_missing)
  then show ?thesis
    using code_missing_required db_missing_required doc_missing_required by blast
qed

theorem missing_required_argument_rejected_witness:
  "(\<exists>m. code_call_tool quiet_os (tool_name (code_list_tools ! 1)) [''file_path'' \<mapsto> PStr ''a.txt'']
          empty_code_state = (Inl (ValueError m), empty_code_state))
   \<and> (\<exists>m. db_call_tool small_engine (tool_name (db_list_tools ! 3))
          [''name'' \<mapsto> PStr ''Dana'', ''email'' \<mapsto> PStr ''dana@example.com'', ''age'' \<mapsto> PNone]
          fresh_db_state = (Inl (ValueError m), fresh_db_state))
   \<and> (\<exists>m. doc_call_tool quiet_os (tool_name (doc_list_tools ! 3)) Map.empty empty_doc_state
          = (Inl (ValueError m), empty_doc_state))
   \<and> tool_name (code_list_tools ! 1) = ''write_file''
   \<and> tool_name (db_list_tools ! 3) = ''insert_user''
   \<and> tool_name (doc_list_tools ! 3) = ''search_documents''"
proof -
  have a1: "[''file_path'' \<mapsto> PStr ''a.txt''] ''content'' = None \<or>
            [''file_path'' \<mapsto> PStr ''a.txt''] ''content'' = Some PNone"
    by simp
  have t1: "code_list_tools ! 1 \<in> set code_list_tools
      \<and> ''content'' \<in> set (tool_required (code_list_tools ! 1))"
    by (simp add: code_list_tools_def)
  have a2: "[''name'' \<mapsto> PStr ''Dana'', ''email'' \<mapsto> PStr ''dana@example.com'', ''age'' \<mapsto> PNone] ''age''
              = None \<or>
            [''name'' \<mapsto> PStr ''Dana'', ''email'' \<mapsto> PStr ''dana@example.com'', ''age'' \<mapsto> PNone] ''age''
              = Some PNone"
    by simp
  have t2: "db_list_tools ! 3 \<in> set db_list_tools
      \<and> ''age'' \<in> set (tool_required (db_list_tools ! 3))"
    by (simp add: db_list_tools_def)
  have a3: "Map.empty ''query'' = None \<or> Map.empty ''query'' = Some PNone"
    by simp
  have t3: "doc_list_tools ! 3 \<in> set doc_list_tools
      \<and> ''query'' \<in> set (tool_required (doc_list_tools ! 3))"
    by (simp add: doc_list_tools_def)
  note r1 = missing_required_argument_rejected [where arguments = "[''file_path'' \<mapsto> PStr ''a.txt'']"
      and k = "''content''" and t = "code_list_tools ! 1" and os = quiet_os
      and cs = empty_code_state, OF a1, THEN conjunct1, THEN mp, OF t1]
  note r2 = missing_required_argument_rejected [where arguments
        = "[''name'' \<mapsto> PStr ''Dana'', ''email'' \<mapsto> PStr ''dana@example.com'', ''age'' \<mapsto> PNone]"
      and k = "''age''" and t = "db_list_tools ! 3" and engine = small_engine
      and ds = fresh_db_state, OF a2, THEN conjunct2, THEN conjunct1, THEN mp, OF t2]
  note r3 = missing_required_argument_rejected [where arguments = Map.empty
      and k = "''query''" and t = "doc_list_tools ! 3" and os = quiet_os
      and xs = empty_doc_state, OF a3, THEN conjunct2, THEN conjunct2, THEN mp, OF t3]
  have n: "tool_name (code_list_tools ! 1) = ''write_file''
      \<and> tool_name (db_list_tools ! 3) = ''insert_user''
      \<and> tool_name (doc_list_tools ! 3) = ''search_documents''"
    by (simp add: code_list_tools_def db_list_tools_def doc_list_tools_def)
  show ?thesis
    by (rule conjI [OF r1 conjI [OF r2 conjI [OF r3 n]]])
qed

text \<open>
  Claim C9. For every tool name that a server's \<^verbatim>\<open>list_tools\<close> does not declare,
  \<^verbatim>\<open>call_tool\<close> raises \<^verbatim>\<open>ValueError("Unknown tool: <name>")\<close>; no branch of a handler runs
  and the state, with its record of external effects, is unchanged.
\<close>

theorem unknown_tool_rejected:
  "(name \<notin> set (map tool_name code_list_tools) \<longrightarrow>
      code_call_tool os name arguments cs = (Inl (ValueError (''Unknown tool: '' @ name)), cs))
   \<and> (name \<notin> set (map tool_name db_list_tools) \<longrightarrow>
      db_call_tool engine name arguments ds = (Inl (ValueError (''Unknown tool: '' @ name)), ds))
   \<and> (name \<notin> set (map tool_name doc_list_tools) \<longrightarrow>
      doc_call_tool os name arguments xs = (Inl (ValueError (''Unknown tool: '' @ name)), xs))"
  using code_unknown_tool db_unknown_tool doc_unknown_tool by blast

theorem unknown_tool_rejected_witness:
  "''drop_everything'' \<notin> set (map tool_name code_list_tools)
   \<and> ''drop_everything'' \<notin> set (map tool_name db_list_tools)
   \<and> ''drop_everything'' \<notin> set (map tool_name doc_list_tools)
   \<and> code_call_tool quiet_os ''drop_everything'' Map.empty empty_code_state
        = (Inl (ValueError ''Unknown tool: drop_everything''), empty_code_state)
   \<and> db_call_tool small_engine ''drop_everything'' Map.empty fresh_db_state
        = (Inl (ValueError ''Unknown tool: drop_everything''), fresh_db_state)
   \<and> doc_call_tool quiet_os ''drop_everything'' Map.empty empty_doc_state
        = (Inl (ValueError ''Unknown tool: drop_everything''), empty_doc_state)"
proof -
  have c: "''drop_everything'' \<notin> set (map tool_name code_list_tools)"
    by (simp add: code_list_tools_def)
  have d: "''drop_everything'' \<notin> set (map tool_name db_list_tools)"
    by (simp add: db_list_tools_def)
  have x: "''drop_everything'' \<notin> set (map tool_name doc_list_tools)"
    by (simp add: doc_list_tools_def)
  from unknown_tool_rejected [where name = "''drop_everything''" and os = quiet_os
      and engine = small_engine and arguments = Map.empty and cs = empty_code_state
      and ds = fresh_db_state and xs = empty_doc_state] c d x
  show ?thesis by simp
qed

section \<open>Writing and reading back\<close>
















section \<open>Reading resources\<close>











section \<open>Domain failures reported in band\<close>










section \<open>The guard of execute_query\<close>







section \<open>Inserting a user twice\<close>






section \<open>Appending to a document\<close>





section \<open>Searching the documents\<close>























end
